theory Spec2Isabelle
  imports Complex_Main
begin

section \<open>JavaScript strings\<close>

text \<open>
  A JavaScript string is a sequence of UTF-16 code units; \<open>length\<close>, \<open>slice\<close>,
  \<open>includes\<close> and the regular expressions of the sources (none has the \<open>u\<close> flag)
  all count code units. A code unit is a natural number here, and an ASCII literal of the
  source is written \<open>str ''...''\<close>.
\<close>

type_synonym jsstring = "nat list"

definition str :: "string \<Rightarrow> jsstring" where
  "str s = map of_char s"

text \<open>White space as \<open>\s\<close>, \<open>trim\<close> and \<open>parseInt\<close> understand it.\<close>

definition isWhite :: "nat \<Rightarrow> bool" where
  "isWhite u = (u \<in> {9, 10, 11, 12, 13, 32, 160, 5760, 8232, 8233, 8239, 8287, 12288, 65279}
                \<or> (8192 \<le> u \<and> u \<le> 8202))"

definition isDigit :: "nat \<Rightarrow> bool" where
  "isDigit u = (48 \<le> u \<and> u \<le> 57)"

text \<open>
  \<open>s.toLowerCase()\<close>. An ASCII unit has its lower-case form whatever stands around it:
  \<open>A\<close> to \<open>Z\<close> become \<open>a\<close> to \<open>z\<close>, every other ASCII unit stays. The forms of the
  units outside ASCII come from the Unicode case tables of the JavaScript engine, which
  are no part of the sources: they are the parameter \<open>L\<close>, which gives the units written
  for a unit from the units before and after it (the Kelvin sign becomes \<open>k\<close>, a capital
  sigma depends on its neighbours, a surrogate pair is lowered as one character, a
  dotted capital I becomes two units). What is proved below holds for every \<open>L\<close>.
\<close>

definition lowerUnit :: "nat \<Rightarrow> nat" where
  "lowerUnit u = (if 65 \<le> u \<and> u \<le> 90 then u + 32 else u)"

type_synonym caseTable = "jsstring \<Rightarrow> nat \<Rightarrow> jsstring \<Rightarrow> jsstring"

fun lowerFrom :: "caseTable \<Rightarrow> jsstring \<Rightarrow> jsstring \<Rightarrow> jsstring" where
  "lowerFrom L before [] = []"
| "lowerFrom L before (u # after) =
     (if u < 128 then [lowerUnit u] else L before u after) @ lowerFrom L (before @ [u]) after"

definition toLowerCase :: "caseTable \<Rightarrow> jsstring \<Rightarrow> jsstring" where
  "toLowerCase L s = lowerFrom L [] s"

text \<open>The table that leaves every unit outside ASCII as it is, for the examples.\<close>

definition unchanged :: caseTable where
  "unchanged before u after = [u]"

fun startsWith :: "jsstring \<Rightarrow> jsstring \<Rightarrow> bool" where
  "startsWith s [] = True"
| "startsWith [] (y # ys) = False"
| "startsWith (x # xs) (y # ys) = (x = y \<and> startsWith xs ys)"

text \<open>\<open>s.includes(t)\<close>: \<open>t\<close> occurs in \<open>s\<close> as a contiguous run.\<close>

fun includesStr :: "jsstring \<Rightarrow> jsstring \<Rightarrow> bool" where
  "includesStr [] t = (t = [])"
| "includesStr (x # xs) t = (startsWith (x # xs) t \<or> includesStr xs t)"

section \<open>Regular expressions\<close>

text \<open>
  The fragment of ECMAScript regular expressions the sources use: single characters,
  \<open>\s\<close>, \<open>\d\<close>, bracket classes, sequence, alternation, \<open>?\<close>, \<open>*\<close> and
  \<open>{m,n}\<close> on a single character class, and capturing groups. All quantifiers are
  greedy. The \<open>i\<close> flag compares canonical (upper-case) forms; for the ASCII and CJK
  characters of the patterns only the two cases of an ASCII letter are identified.
\<close>

datatype cclass = Lit nat | Space | Digit | OneOf "nat list"

datatype regex =
    Eps
  | Atom cclass
  | Seq regex regex
  | Alt regex regex
  | Opt regex
  | Star cclass
  | Rep nat nat cclass
  | Cap nat regex

datatype regexp = RegExp regex bool

definition canon :: "nat \<Rightarrow> nat" where
  "canon u = (if 97 \<le> u \<and> u \<le> 122 then u - 32 else u)"

definition sameUnit :: "bool \<Rightarrow> nat \<Rightarrow> nat \<Rightarrow> bool" where
  "sameUnit ic a u = (if ic then canon u = canon a else u = a)"

fun accepts :: "bool \<Rightarrow> cclass \<Rightarrow> nat \<Rightarrow> bool" where
  "accepts ic (Lit a) u = sameUnit ic a u"
| "accepts ic Space u = isWhite u"
| "accepts ic Digit u = isDigit u"
| "accepts ic (OneOf as) u = list_ex (\<lambda>a. sameUnit ic a u) as"

type_synonym captures = "nat \<Rightarrow> jsstring option"

text \<open>
  The backtracking matcher as a list of successes: every way the expression can match a
  prefix of the input, as the input left over, in the order in which backtracking tries
  them (a greedy quantifier tries the longest run first, an alternation its left branch
  first). The engine takes the first one.
\<close>

fun starRuns :: "(nat \<Rightarrow> bool) \<Rightarrow> jsstring \<Rightarrow> jsstring list" where
  "starRuns P [] = [[]]"
| "starRuns P (x # xs) = (if P x then starRuns P xs @ [x # xs] else [x # xs])"

fun repRuns :: "(nat \<Rightarrow> bool) \<Rightarrow> nat \<Rightarrow> nat \<Rightarrow> jsstring \<Rightarrow> jsstring list" where
  "repRuns P lo 0 s = (if lo = 0 then [s] else [])"
| "repRuns P lo (Suc hi) [] = (if lo = 0 then [[]] else [])"
| "repRuns P lo (Suc hi) (x # xs) =
     (if P x then repRuns P (lo - 1) hi xs else []) @ (if lo = 0 then [x # xs] else [])"

fun matches :: "bool \<Rightarrow> regex \<Rightarrow> jsstring \<Rightarrow> captures \<Rightarrow> (jsstring \<times> captures) list" where
  "matches ic Eps s c = [(s, c)]"
| "matches ic (Atom cl) s c =
     (case s of [] \<Rightarrow> [] | x # xs \<Rightarrow> if accepts ic cl x then [(xs, c)] else [])"
| "matches ic (Seq a b) s c =
     concat (map (\<lambda>(s1, c1). matches ic b s1 c1) (matches ic a s c))"
| "matches ic (Alt a b) s c = matches ic a s c @ matches ic b s c"
| "matches ic (Opt a) s c = matches ic a s c @ [(s, c)]"
| "matches ic (Star cl) s c = map (\<lambda>s1. (s1, c)) (starRuns (accepts ic cl) s)"
| "matches ic (Rep lo hi cl) s c = map (\<lambda>s1. (s1, c)) (repRuns (accepts ic cl) lo hi s)"
| "matches ic (Cap n a) s c =
     map (\<lambda>(s1, c1). (s1, c1(n \<mapsto> take (length s - length s1) s))) (matches ic a s c)"

text \<open>
  A match: the matched text (\<open>match[0]\<close>) and the capture groups (\<open>match[n]\<close>,
  undefined when the group took no part).
\<close>

type_synonym matchResult = "jsstring \<times> captures"

definition matchAt :: "regexp \<Rightarrow> jsstring \<Rightarrow> matchResult option" where
  "matchAt p s =
     (case p of RegExp r ic \<Rightarrow>
        (case matches ic r s Map.empty of
           [] \<Rightarrow> None
         | (s1, c1) # _ \<Rightarrow> Some (take (length s - length s1) s, c1)))"

text \<open>\<open>s.match(p)\<close> for a pattern without the \<open>g\<close> flag: the leftmost match.\<close>

fun match :: "regexp \<Rightarrow> jsstring \<Rightarrow> matchResult option" where
  "match p [] = matchAt p []"
| "match p (x # xs) =
     (case matchAt p (x # xs) of Some m \<Rightarrow> Some m | None \<Rightarrow> match p xs)"

definition test :: "regexp \<Rightarrow> jsstring \<Rightarrow> bool" where
  "test p s = (match p s \<noteq> None)"

text \<open>Writing patterns: a literal run of characters, sequences and alternatives.\<close>

fun units :: "nat list \<Rightarrow> regex" where
  "units [] = Eps"
| "units [u] = Atom (Lit u)"
| "units (u # us) = Seq (Atom (Lit u)) (units us)"

definition lit :: "string \<Rightarrow> regex" where
  "lit s = units (str s)"

fun seqs :: "regex list \<Rightarrow> regex" where
  "seqs [] = Eps"
| "seqs [r] = r"
| "seqs (r # rs) = Seq r (seqs rs)"

fun alts :: "regex list \<Rightarrow> regex" where
  "alts [] = Eps"
| "alts [r] = r"
| "alts (r # rs) = Alt r (alts rs)"

abbreviation ws :: regex where
  "ws \<equiv> Star Space"

abbreviation ch :: "char \<Rightarrow> regex" where
  "ch x \<equiv> Atom (Lit (of_char x))"


abbreviation grouped :: regex where
  "grouped \<equiv> seqs [Rep 1 3 Digit, Opt (ch CHR '',''), Rep 3 3 Digit]"

text \<open>\<open>s.replace(/[...]/g, '')\<close> for a bracket class: every unit of the class is removed.\<close>

definition removeClass :: "bool \<Rightarrow> cclass \<Rightarrow> jsstring \<Rightarrow> jsstring" where
  "removeClass ic cl s = filter (\<lambda>u. \<not> accepts ic cl u) s"




text \<open>\<open>[...new Set(xs)]\<close>: the first occurrence of each element, in order.\<close>

fun setSpread :: "'a list \<Rightarrow> 'a list" where
  "setSpread [] = []"
| "setSpread (x # xs) = x # setSpread (filter (\<lambda>y. y \<noteq> x) xs)"


fun groups :: "regex \<Rightarrow> nat set" where
  "groups Eps = {}"
| "groups (Atom cl) = {}"
| "groups (Seq a b) = groups a \<union> groups b"
| "groups (Alt a b) = groups a \<union> groups b"
| "groups (Opt a) = groups a"
| "groups (Star cl) = {}"
| "groups (Rep lo hi cl) = {}"
| "groups (Cap n a) = insert n (groups a)"




section \<open>Numbers\<close>

text \<open>
  A JavaScript number is a double. The numbers of the sources are counts, years and
  salaries, all read from digits: the values met are the integers a double can hold, the
  two infinities and \<open>NaN\<close>. \<open>Number i\<close> is used for such integers \<open>i\<close> only.
\<close>

datatype number = NaN | Number int | Infinity | NegInfinity

datatype error = TypeError | QueryError | DivisionByZero

text \<open>
  The double nearest to an integer: below \<open>2^53\<close> the integer itself, above it the 53
  leading bits, rounded to the nearest and to the even one at a tie; from
  \<open>2^1024 - 2^970\<close> on the rounding reaches \<open>2^1024\<close>, which is an infinity.
\<close>

function bitLength :: "nat \<Rightarrow> nat" where
  "bitLength n = (if n = 0 then 0 else Suc (bitLength (n div 2)))"
  by pat_completeness auto
termination
  by (relation "measure id") auto

declare bitLength.simps [simp del]

definition nearest :: "nat \<Rightarrow> nat" where
  "nearest v =
     (let e = bitLength v - 53;
          q = v div 2 ^ e;
          r = v mod 2 ^ e;
          q' = (if 2 * r > 2 ^ e \<or> (2 * r = 2 ^ e \<and> odd q) then q + 1 else q)
      in q' * 2 ^ e)"

definition toDouble :: "int \<Rightarrow> number" where
  "toDouble i =
     (let v = nearest (nat \<bar>i\<bar>)
      in if v \<ge> 2 ^ 1024 then (if i < 0 then NegInfinity else Infinity)
         else Number (if i < 0 then - int v else int v))"

text \<open>\<open>x * k\<close> for an integer \<open>k\<close>: the exact product, rounded to a double.\<close>

definition multiply :: "number \<Rightarrow> int \<Rightarrow> number" where
  "multiply x k =
     (case x of
        NaN \<Rightarrow> NaN
      | Number i \<Rightarrow> toDouble (i * k)
      | Infinity \<Rightarrow> if k > 0 then Infinity else if k < 0 then NegInfinity else NaN
      | NegInfinity \<Rightarrow> if k > 0 then NegInfinity else if k < 0 then Infinity else NaN)"

text \<open>\<open>x >= y\<close>: false when either side is \<open>NaN\<close>.\<close>

fun geq :: "number \<Rightarrow> number \<Rightarrow> bool" where
  "geq NaN y = False"
| "geq x NaN = False"
| "geq Infinity y = True"
| "geq x NegInfinity = True"
| "geq (Number i) (Number j) = (i \<ge> j)"
| "geq (Number i) Infinity = False"
| "geq NegInfinity y = False"

text \<open>
  \<open>parseInt(s)\<close> with no radix: leading white space and a sign are skipped, \<open>0x\<close>
  selects base 16, the longest run of digits is read, and no digit gives \<open>NaN\<close>. The
  integer the digits denote is rounded to a double; the rounding is the exact one of
  the common engines (the standard lets an engine read decimal digits after the
  twentieth as zeros, which changes no result below \<open>2^53\<close> and leaves every
  value from \<open>2^1024\<close> on an infinity).
\<close>

definition digitValue :: "nat \<Rightarrow> nat option" where
  "digitValue u =
     (if 48 \<le> u \<and> u \<le> 57 then Some (u - 48)
      else if 97 \<le> u \<and> u \<le> 122 then Some (u - 87)
      else if 65 \<le> u \<and> u \<le> 90 then Some (u - 55)
      else None)"

fun radixDigits :: "nat \<Rightarrow> jsstring \<Rightarrow> nat list" where
  "radixDigits R [] = []"
| "radixDigits R (u # us) =
     (case digitValue u of
        None \<Rightarrow> []
      | Some v \<Rightarrow> if v < R then v # radixDigits R us else [])"

definition parseInt :: "jsstring \<Rightarrow> number" where
  "parseInt s =
     (let t = dropWhile isWhite s;
          neg = (case t of [] \<Rightarrow> False | u # _ \<Rightarrow> u = 45);
          t1 = (case t of [] \<Rightarrow> [] | u # us \<Rightarrow> if u = 43 \<or> u = 45 then us else t);
          hex = (case t1 of a # b # _ \<Rightarrow> a = 48 \<and> (b = 120 \<or> b = 88) | _ \<Rightarrow> False);
          R = (if hex then 16 else 10);
          ds = radixDigits R (if hex then drop 2 t1 else t1)
      in if ds = [] then NaN
         else toDouble ((if neg then - 1 else 1) * int (foldl (\<lambda>a v. a * R + v) 0 ds)))"

text \<open>
  \<open>n.toString()\<close>, in the decimal notation JavaScript uses below \<open>10^21\<close>; the sources
  print amounts below \<open>10^6\<close> only.
\<close>

function decimal :: "nat \<Rightarrow> jsstring" where
  "decimal n = (if n < 10 then [48 + n] else decimal (n div 10) @ [48 + n mod 10])"
  by pat_completeness auto
termination
  by (relation "measure id") auto

declare decimal.simps [simp del]

definition toString :: "number \<Rightarrow> jsstring" where
  "toString x =
     (case x of
        NaN \<Rightarrow> str ''NaN''
      | Number i \<Rightarrow> if i < 0 then 45 # decimal (nat (- i)) else decimal (nat i)
      | Infinity \<Rightarrow> str ''Infinity''
      | NegInfinity \<Rightarrow> str ''-Infinity'')"

section \<open>The generic board's extractors (jobsdb-hk-frontend.tsx)\<close>

text \<open>
  \<^verbatim>\<open>for (const pattern of patterns) { if (pattern.test(description)) return v; }\<close>:
  \<open>Some v\<close> when the loop returns, \<open>None\<close> when it runs to its end.
\<close>

fun returnOnMatch :: "regexp list \<Rightarrow> jsstring \<Rightarrow> 'a \<Rightarrow> 'a option" where
  "returnOnMatch [] d v = None"
| "returnOnMatch (p # ps) d v = (if test p d then Some v else returnOnMatch ps d v)"

text \<open>
  \<^verbatim>\<open>for (const pattern of patterns) { const match = description.match(pattern);
  if (match) { ... return ... } }\<close>: the match of the first pattern of the list that matches.
\<close>

fun firstMatch :: "regexp list \<Rightarrow> jsstring \<Rightarrow> matchResult option" where
  "firstMatch [] d = None"
| "firstMatch (p # ps) d =
     (case match p d of Some m \<Rightarrow> Some m | None \<Rightarrow> firstMatch ps d)"


subsection \<open>extractTechStack\<close>

definition techKeywords :: "jsstring list" where
  "techKeywords = map str
     [''JavaScript'', ''TypeScript'', ''React'', ''Angular'', ''Vue'', ''Node.js'', ''Python'',
      ''Java'', ''C++'', ''C#'', ''.NET'', ''Ruby'', ''Rails'', ''PHP'', ''Laravel'', ''Django'',
      ''Flask'', ''Spring'', ''Express'', ''MongoDB'', ''PostgreSQL'', ''MySQL'', ''Redis'',
      ''Docker'', ''Kubernetes'', ''AWS'', ''Azure'', ''GCP'', ''GraphQL'', ''REST API'',
      ''Machine Learning'', ''TensorFlow'', ''PyTorch'', ''Scikit-learn'', ''Pandas'',
      ''Swift'', ''Kotlin'', ''React Native'', ''Flutter'', ''Go'', ''Rust'', ''Scala'',
      ''Elasticsearch'', ''Kafka'', ''RabbitMQ'', ''Jenkins'', ''Git'', ''CI/CD'']"

definition extractTechStack :: "caseTable \<Rightarrow> jsstring \<Rightarrow> jsstring list" where
  "extractTechStack L description =
     (let lowerDesc = toLowerCase L description;
          found = foldl (\<lambda>found tech.
                    if includesStr lowerDesc (toLowerCase L tech) then found @ [tech] else found)
                    [] techKeywords
      in setSpread found)"

subsection \<open>extractYearsOfExperience\<close>



definition groupObject :: "matchResult \<Rightarrow> nat \<Rightarrow> error + jsstring" where
  "groupObject m n = (case snd m n of None \<Rightarrow> Inl TypeError | Some w \<Rightarrow> Inr w)"


subsection \<open>checkVisaSponsorship\<close>

definition positivePatterns :: "regexp list" where
  "positivePatterns =
     [RegExp (seqs [lit ''visa'', ws, lit ''sponsorship'', ws, Opt (Seq (lit ''is'') ws),
                    lit ''available'']) True,
      RegExp (seqs [lit ''willing'', ws, lit ''to'', ws, lit ''sponsor'']) True,
      RegExp (seqs [lit ''we'', ws, lit ''sponsor'']) True,
      RegExp (seqs [lit ''sponsorship'', ws, lit ''provided'']) True,
      RegExp (seqs [lit ''h1b'', ws, lit ''sponsorship'']) True]"

definition negativePatterns :: "regexp list" where
  "negativePatterns =
     [RegExp (seqs [lit ''no'', ws, lit ''visa'', ws, lit ''sponsorship'']) True,
      RegExp (seqs [lit ''unable'', ws, lit ''to'', ws, lit ''sponsor'']) True,
      RegExp (seqs [lit ''cannot'', ws, lit ''sponsor'']) True,
      RegExp (seqs [lit ''not'', ws, lit ''able'', ws, lit ''to'', ws, lit ''sponsor'']) True,
      RegExp (seqs [lit ''must'', ws, lit ''be'', ws, lit ''authorized'']) True,
      RegExp (seqs [lit ''must'', ws, lit ''have'', ws, lit ''work'', ws,
                    lit ''authorization'']) True]"

text \<open>The result \<open>boolean | null\<close> is a \<open>bool option\<close>, \<open>None\<close> for \<open>null\<close>.\<close>

definition checkVisaSponsorship :: "jsstring \<Rightarrow> bool option" where
  "checkVisaSponsorship description =
     (case returnOnMatch negativePatterns description False of
        Some b \<Rightarrow> Some b
      | None \<Rightarrow>
          (case returnOnMatch positivePatterns description True of
             Some b \<Rightarrow> Some b
           | None \<Rightarrow> None))"

subsection \<open>checkSecurityClearance\<close>



subsection \<open>extractEducation\<close>



subsection \<open>extractSalaryRange\<close>

text \<open>The interface \<open>SalaryRange\<close>; its fields \<open>min\<close> and \<open>max\<close> are \<open>smin\<close> and \<open>smax\<close> here.\<close>

record SalaryRange =
  smin :: number
  smax :: number

definition salaryPatterns :: "regexp list" where
  "salaryPatterns =
     [RegExp (seqs [ch CHR ''$'', Cap 1 grouped, ws, ch CHR ''-'', ws,
                    ch CHR ''$'', Cap 2 grouped]) False,
      RegExp (seqs [ch CHR ''$'', Cap 1 (Seq (Rep 1 3 Digit) (ch CHR ''k'')), ws, ch CHR ''-'', ws,
                    ch CHR ''$'', Cap 2 (Seq (Rep 1 3 Digit) (ch CHR ''k''))]) True,
      RegExp (seqs [Cap 1 grouped, ws, ch CHR ''-'', ws, Cap 2 grouped, ws,
                    Alt (seqs [lit ''per'', ws, lit ''year'']) (lit ''annually'')]) True]"

text \<open>The class \<open>[k,]\<close> of \<^verbatim>\<open>replace(/[k,]/gi, '')\<close>.\<close>

abbreviation kOrComma :: cclass where
  "kOrComma \<equiv> OneOf [of_char CHR ''k'', of_char CHR '','']"

definition salaryAmount :: "caseTable \<Rightarrow> jsstring \<Rightarrow> number" where
  "salaryAmount L g =
     (let amount = removeClass True kOrComma g;
          amount = (if includesStr (toLowerCase L g) (str ''k'')
                    then toString (multiply (parseInt amount) 1000) else amount)
      in parseInt amount)"

definition extractSalaryRange :: "caseTable \<Rightarrow> jsstring \<Rightarrow> error + SalaryRange option" where
  "extractSalaryRange L description =
     (case firstMatch salaryPatterns description of
        None \<Rightarrow> Inr None
      | Some m \<Rightarrow>
          (case groupObject m 1 of
             Inl e \<Rightarrow> Inl e
           | Inr g1 \<Rightarrow>
               (case groupObject m 2 of
                  Inl e \<Rightarrow> Inl e
                | Inr g2 \<Rightarrow> Inr (Some \<lparr>smin = salaryAmount L g1, smax = salaryAmount L g2\<rparr>))))"

subsection \<open>extractLocation\<close>




subsection \<open>summarizeResponsibilities\<close>




section \<open>The regional extractors (jobsdb-integration.js)\<close>

subsection \<open>The pattern tables (HK_PATTERNS)\<close>

definition hkSalaryPatterns :: "regexp list" where
  "hkSalaryPatterns =
     [RegExp (seqs [lit ''HK'', Opt (ch CHR ''$''), ws, Cap 1 grouped, ws, ch CHR ''-'', ws,
                    lit ''HK'', Opt (ch CHR ''$''), ws, Cap 2 grouped]) True,
      RegExp (seqs [ch CHR ''$'', Cap 1 (Seq (Rep 1 3 Digit) (ch CHR ''k'')), ws, ch CHR ''-'', ws,
                    ch CHR ''$'', Cap 2 (Seq (Rep 1 3 Digit) (ch CHR ''k''))]) True,
      RegExp (seqs [Cap 1 (Rep 2 3 Digit), ch CHR ''k'', ws, ch CHR ''-'', ws,
                    Cap 2 (Rep 2 3 Digit), ch CHR ''k'', ws,
                    Alt (lit ''HKD'') (lit ''HK$'')]) True,
      RegExp (seqs [units [26376, 34218], ws, Atom (OneOf [65306, of_char CHR '':'']), ws,
                    Opt (ch CHR ''$''), Cap 1 grouped, ws, ch CHR ''-'', ws,
                    Opt (ch CHR ''$''), Cap 2 grouped]) True]"



subsection \<open>extractHKSalary\<close>

text \<open>The returned object \<open>{min, max, currency}\<close>, with \<open>hmin\<close> and \<open>hmax\<close> for its first two fields.\<close>

record HKSalary =
  hmin :: number
  hmax :: number
  currency :: jsstring

text \<open>
  Both branches parse the group with \<open>k\<close> and commas removed; the first one, taken when
  the matched text \<open>match[0]\<close> contains a \<open>k\<close> in either case, multiplies by 1000.
\<close>

definition hkAmount :: "caseTable \<Rightarrow> jsstring \<Rightarrow> jsstring \<Rightarrow> number" where
  "hkAmount L whole g =
     (let amount = removeClass True kOrComma g
      in if includesStr (toLowerCase L whole) (str ''k'')
         then multiply (parseInt amount) 1000
         else parseInt (removeClass False (Lit (of_char CHR '','')) amount))"

definition extractHKSalary :: "caseTable \<Rightarrow> jsstring \<Rightarrow> error + HKSalary option" where
  "extractHKSalary L description =
     (case firstMatch hkSalaryPatterns description of
        None \<Rightarrow> Inr None
      | Some m \<Rightarrow>
          (case groupObject m 1 of
             Inl e \<Rightarrow> Inl e
           | Inr g1 \<Rightarrow>
               (case groupObject m 2 of
                  Inl e \<Rightarrow> Inl e
                | Inr g2 \<Rightarrow>
                    Inr (Some \<lparr>hmin = hkAmount L (fst m) g1, hmax = hkAmount L (fst m) g2,
                               currency = str ''HKD''\<rparr>))))"

subsection \<open>checkWorkPermitRequirements\<close>

record WorkPermit =
  permanentResidentRequired :: bool
  visaSponsorshipAvailable :: bool
  workVisaAccepted :: bool





subsection \<open>extractHKLocation\<close>

record HKLocation =
  district :: "jsstring option"
  mtrLine :: "jsstring option"
  workFromHome :: bool
  hybrid :: bool





subsection \<open>extractLanguageRequirements\<close>



subsection \<open>classifyHKIndustry\<close>

definition industries :: "(jsstring \<times> regexp) list" where
  "industries =
     [(str ''Banking & Finance'',
       RegExp (alts [lit ''bank'', lit ''financial'', lit ''investment'', lit ''trading'',
                     seqs [lit ''hedge'', ws, lit ''fund''],
                     seqs [lit ''private'', ws, lit ''equity''],
                     seqs [lit ''wealth'', ws, lit ''management'']]) True),
      (str ''Insurance'',
       RegExp (alts [lit ''insurance'', lit ''takaful'', lit ''actuary'', lit ''underwriting'']) True),
      (str ''Real Estate'',
       RegExp (alts [lit ''property'', seqs [lit ''real'', ws, lit ''estate''],
                     lit ''construction'', lit ''architectural'']) True),
      (str ''Retail'',
       RegExp (alts [lit ''retail'', lit ''shopping'', lit ''mall'', lit ''luxury'',
                     lit ''fashion'']) True),
      (str ''Logistics'',
       RegExp (alts [lit ''logistics'', lit ''shipping'', lit ''freight'',
                     seqs [lit ''supply'', ws, lit ''chain''], lit ''warehouse'']) True),
      (str ''Technology'',
       RegExp (alts [lit ''fintech'', lit ''software'', lit ''IT'', lit ''technology'',
                     lit ''digital'', lit ''cyber'']) True),
      (str ''Healthcare'',
       RegExp (alts [lit ''hospital'', lit ''medical'', lit ''clinic'', lit ''pharmaceutical'',
                     lit ''healthcare'']) True),
      (str ''Education'',
       RegExp (alts [lit ''university'', lit ''school'', lit ''education'', lit ''teaching'',
                     lit ''academy'']) True),
      (str ''Government'',
       RegExp (alts [lit ''government'', seqs [lit ''civil'', ws, lit ''service''],
                     seqs [lit ''public'', ws, lit ''sector'']]) True)]"

text \<open>
  \<^verbatim>\<open>for (const [industry, pattern] of Object.entries(industries)) { if
  (pattern.test(description)) return industry; }\<close>: the entries come in the order the
  object literal lists them.
\<close>

fun firstLabel :: "(jsstring \<times> regexp) list \<Rightarrow> jsstring \<Rightarrow> jsstring option" where
  "firstLabel [] d = None"
| "firstLabel ((label, pattern) # entries) d =
     (if test pattern d then Some label else firstLabel entries d)"

definition classifyHKIndustry :: "jsstring \<Rightarrow> jsstring" where
  "classifyHKIndustry description =
     (case firstLabel industries description of
        Some industry \<Rightarrow> industry
      | None \<Rightarrow> str ''Other'')"

subsection \<open>extractHKBenefits\<close>



subsection \<open>extractHKSpecificInfo\<close>

text \<open>
  The annotation object; its \<open>salary\<close> and \<open>location\<close> fields carry the suffix
  \<open>_hk\<close> here, the plain names being those of the generic board's annotations.
\<close>

record HKAnnotations =
  salary_hk :: "HKSalary option"
  workPermitRequired :: WorkPermit
  location_hk :: HKLocation
  languages :: "jsstring list"
  industry :: jsstring
  benefits :: "jsstring list"


section \<open>Minimum-salary filters\<close>

subsection \<open>The generic board (JobBoard, "Apply filters")\<close>

text \<open>The interfaces \<open>JobAnnotations\<close> and \<open>Job\<close> (\<open>job_id\<close> is its field \<open>id\<close>).\<close>

record JobAnnotations =
  techStack :: "jsstring list"
  yearsOfExperience :: "number option"
  visaSponsorship :: "bool option"
  securityClearance :: bool
  education :: "jsstring list"
  salary :: "SalaryRange option"
  location :: jsstring
  summary :: jsstring

record Job =
  job_id :: nat
  company :: jsstring
  title :: jsstring
  description :: jsstring
  postedDate :: jsstring
  annotations :: JobAnnotations

text \<open>
  A job for the examples below. Its description offers "$100,000 - $140,000", as the
  second description of the mock data (\<open>generateMockJobs\<close>) does, and its salary is
  what \<open>extractSalaryRange\<close> reads from it; the other annotations are left empty.
\<close>

definition sampleJob :: Job where
  "sampleJob =
     \<lparr>job_id = 2, company = str ''DataSoft'', title = str ''Full Stack Developer'',
      description = str ''Competitive salary: $100,000 - $140,000. Hybrid work environment.'',
      postedDate = str ''2024-01-01T00:00:00.000Z'',
      annotations =
        \<lparr>techStack = [], yearsOfExperience = None, visaSponsorship = Some False,
         securityClearance = False, education = [],
         salary = Some \<lparr>smin = Number 100000, smax = Number 140000\<rparr>,
         location = str ''Hybrid'', summary = []\<rparr>\<rparr>"

text \<open>
  The salary step of the filter effect. \<open>filters.minSalary\<close> is the text of the input
  labelled "Min Salary ($k)"; an empty text is falsy and leaves the list as it is.
\<close>

definition minSalaryFilter :: "jsstring \<Rightarrow> Job list \<Rightarrow> Job list" where
  "minSalaryFilter minSalary filtered =
     (if minSalary \<noteq> [] \<and> minSalary \<noteq> str []
      then (let minSal = multiply (parseInt minSalary) 1000
            in filter (\<lambda>job. case salary (annotations job) of
                               None \<Rightarrow> False
                             | Some s \<Rightarrow> geq (smin s) minSal) filtered)
      else filtered)"

subsection \<open>The regional board (GET /api/jobs/hk)\<close>

text \<open>
  A row of the table \<open>jobs\<close>, with the columns the two queries below read. A column
  without \<open>NOT NULL\<close> is an option; timestamps are seconds.
\<close>

record JobRow =
  source :: jsstring
  tech_stack :: "jsstring list option"
  salary_min :: "int option"
  salary_max :: "int option"
  created_at :: "int option"

definition int4 :: "int \<Rightarrow> bool" where
  "int4 i = (- 2147483648 \<le> i \<and> i \<le> 2147483647)"

text \<open>
  \<^verbatim>\<open>if (minSalary) { query += ` AND salary_max >= $n`; queryParams.push(parseInt(minSalary)); }\<close>
  as a condition on a row: \<open>req.query.minSalary\<close> is absent or a string, an empty string
  is falsy, and a comparison with \<open>NULL\<close> does not hold. A parameter that is no
  \<open>INTEGER\<close> (\<open>NaN\<close>, an infinity, or out of range) makes the query fail.
\<close>

definition minSalaryClause :: "jsstring option \<Rightarrow> JobRow \<Rightarrow> error + bool" where
  "minSalaryClause minSalary row =
     (case minSalary of
        None \<Rightarrow> Inr True
      | Some s \<Rightarrow>
          if s = [] then Inr True
          else (case parseInt s of
                  NaN \<Rightarrow> Inl QueryError
                | Number m \<Rightarrow>
                    if int4 m
                    then Inr (case salary_max row of None \<Rightarrow> False | Some x \<Rightarrow> x \<ge> m)
                    else Inl QueryError
                | Infinity \<Rightarrow> Inl QueryError
                | NegInfinity \<Rightarrow> Inl QueryError))"

section \<open>Trending skills (GET /api/jobs/hk/trending)\<close>

text \<open>
  The handler sends one statement with the values \<open>[days, days * 2, days]\<close> and answers
  with its rows, or with status 500 when the query fails. The statement is modelled as
  the server treats it: its literals are read, its values are bound, and then it is
  evaluated as relational operations on lists of rows.
\<close>

subsection \<open>The literals and the parameters of the statement\<close>

text \<open>
  The three interval literals of the statement are all the text \<open>'%s days'\<close>: the
  \<open>%s\<close> is in the statement as written, nothing replaces it.
\<close>

definition interval_literal :: jsstring where
  "interval_literal = str ''%s days''"

text \<open>
  The interval input of PostgreSQL, for a text of the form \<open>7 days\<close>, which is the form
  the literal has once a number stands in it: a run of digits, blanks, and the unit. The
  result is in seconds. Only this form is modelled; any other text counts as invalid
  input syntax, as \<open>%s days\<close>, a text without a number, is for PostgreSQL, and the
  statement is rejected.
\<close>

definition interval_in :: "jsstring \<Rightarrow> error + int" where
  "interval_in s =
     (let t = dropWhile (\<lambda>u. u = 32) s;
          ds = takeWhile isDigit t;
          name = dropWhile (\<lambda>u. u = 32) (dropWhile isDigit t)
      in if ds \<noteq> [] \<and> (name = str ''days'' \<or> name = str ''day'')
         then Inr (int (foldl (\<lambda>a u. a * 10 + (u - 48)) 0 ds) * 86400)
         else Inl QueryError)"

text \<open>
  The parameters \<open>$1\<close>, \<open>$2\<close>, ... the statement refers to: it has none. The server
  rejects a request that binds another number of values than that.
\<close>

definition statement_parameters :: "nat list" where
  "statement_parameters = []"

subsection \<open>The query\<close>

text \<open>The elements of \<open>tech_stack\<close> are taken to be non-null.\<close>

text \<open>\<open>SELECT unnest(tech_stack) AS technology, COUNT(*) ... GROUP BY technology\<close>.\<close>

definition unnest_tech_stack :: "JobRow list \<Rightarrow> jsstring list" where
  "unnest_tech_stack rows =
     concat (map (\<lambda>r. case tech_stack r of None \<Rightarrow> [] | Some ts \<Rightarrow> ts) rows)"

definition group_count :: "jsstring list \<Rightarrow> (jsstring \<times> int) list" where
  "group_count ts = map (\<lambda>t. (t, int (count_list ts t))) (remdups ts)"

text \<open>
  The two \<open>WHERE\<close> clauses, for the intervals \<open>i\<close>, \<open>i1\<close> and \<open>i2\<close> their literals
  denote: \<open>created_at > NOW() - i\<close>, and
  \<open>created_at > NOW() - i1 AND created_at <= NOW() - i2\<close>.
\<close>

definition in_current_window :: "int \<Rightarrow> int \<Rightarrow> JobRow \<Rightarrow> bool" where
  "in_current_window now i j =
     (source j = str ''JobsDB''
      \<and> (case created_at j of None \<Rightarrow> False | Some t \<Rightarrow> t > now - i))"

definition in_previous_window :: "int \<Rightarrow> int \<Rightarrow> int \<Rightarrow> JobRow \<Rightarrow> bool" where
  "in_previous_window now i1 i2 j =
     (source j = str ''JobsDB''
      \<and> (case created_at j of None \<Rightarrow> False | Some t \<Rightarrow> t > now - i1 \<and> t \<le> now - i2))"

definition current_week :: "int \<Rightarrow> int \<Rightarrow> JobRow list \<Rightarrow> (jsstring \<times> int) list" where
  "current_week now i jobs =
     group_count (unnest_tech_stack (filter (in_current_window now i) jobs))"

definition previous_week :: "int \<Rightarrow> int \<Rightarrow> int \<Rightarrow> JobRow list \<Rightarrow> (jsstring \<times> int) list" where
  "previous_week now i1 i2 jobs =
     group_count (unnest_tech_stack (filter (in_previous_window now i1 i2) jobs))"

text \<open>
  \<open>current_week c FULL OUTER JOIN previous_week p ON c.technology = p.technology\<close>:
  every pair of rows with the same technology, then the rows of either side without a
  partner, the other side \<open>NULL\<close>.
\<close>

definition full_outer_join ::
  "(jsstring \<times> int) list \<Rightarrow> (jsstring \<times> int) list
   \<Rightarrow> ((jsstring \<times> int) option \<times> (jsstring \<times> int) option) list" where
  "full_outer_join cs ps =
     concat (map (\<lambda>c. case filter (\<lambda>p. fst c = fst p) ps of
                         [] \<Rightarrow> [(Some c, None)]
                       | p # rest \<Rightarrow> map (\<lambda>p. (Some c, Some p)) (p # rest)) cs)
     @ map (\<lambda>p. (None, Some p)) (filter (\<lambda>p. \<not> list_ex (\<lambda>c. fst c = fst p) cs) ps)"

definition coalesce :: "'a option \<Rightarrow> 'a \<Rightarrow> 'a" where
  "coalesce x d = (case x of None \<Rightarrow> d | Some v \<Rightarrow> v)"

text \<open>\<open>ROUND(x, 2)\<close> on \<open>numeric\<close>: to two decimal places, ties away from zero.\<close>

definition round2 :: "rat \<Rightarrow> rat" where
  "round2 x =
     (if 0 \<le> x then of_int \<lfloor>x * 100 + 1 / 2\<rfloor> / 100
      else - (of_int \<lfloor>- x * 100 + 1 / 2\<rfloor> / 100))"

text \<open>
  Division on \<open>numeric\<close>: an error on a zero divisor, \<open>NULL\<close> on a \<open>NULL\<close> one.
  The quotient is taken exactly; PostgreSQL carries at least sixteen significant digits
  of it, far more than the two decimal places the query keeps.
\<close>

definition numeric_div :: "rat \<Rightarrow> int option \<Rightarrow> error + rat option" where
  "numeric_div a b =
     (case b of
        None \<Rightarrow> Inr None
      | Some n \<Rightarrow> if n = 0 then Inl DivisionByZero else Inr (Some (a / of_int n)))"

text \<open>
  The \<open>CASE\<close> expression of the select list, for the row \<open>(c, p)\<close> of the join.
\<close>

definition growth_percentage_of ::
  "(jsstring \<times> int) option \<Rightarrow> (jsstring \<times> int) option \<Rightarrow> error + rat option" where
  "growth_percentage_of c p =
     (if coalesce (map_option snd p) 0 = 0 then Inr (Some 100)
      else (case numeric_div
                   (of_int (coalesce (map_option snd c) 0 - coalesce (map_option snd p) 0))
                   (map_option snd p) of
              Inl e \<Rightarrow> Inl e
            | Inr None \<Rightarrow> Inr None
            | Inr (Some q) \<Rightarrow> Inr (Some (round2 (q * 100)))))"

record TrendingRow =
  technology :: "jsstring option"
  current_count :: int
  previous_count :: int
  growth_percentage :: "rat option"

definition select_row ::
  "(jsstring \<times> int) option \<times> (jsstring \<times> int) option \<Rightarrow> error + TrendingRow" where
  "select_row cp =
     (case cp of (c, p) \<Rightarrow>
        (case growth_percentage_of c p of
           Inl e \<Rightarrow> Inl e
         | Inr g \<Rightarrow>
             Inr \<lparr>technology = coalesce (map_option (Some \<circ> fst) c) (map_option fst p),
                  current_count = coalesce (map_option snd c) 0,
                  previous_count = coalesce (map_option snd p) 0,
                  growth_percentage = g\<rparr>))"

text \<open>The rows of a query, or the error of the first row that raises one.\<close>

fun rows_or_error :: "(error + 'a) list \<Rightarrow> error + 'a list" where
  "rows_or_error [] = Inr []"
| "rows_or_error (Inl e # rs) = Inl e"
| "rows_or_error (Inr r # rs) =
     (case rows_or_error rs of Inl e \<Rightarrow> Inl e | Inr rows \<Rightarrow> Inr (r # rows))"

text \<open>
  \<open>ORDER BY growth_percentage DESC, current_count DESC\<close>, as an insertion sort; a
  \<open>NULL\<close> sorts first in descending order. Rows equal in both keys keep their order.
\<close>

definition sorts_before :: "TrendingRow \<Rightarrow> TrendingRow \<Rightarrow> bool" where
  "sorts_before a b =
     (case (growth_percentage a, growth_percentage b) of
        (None, None) \<Rightarrow> current_count a \<ge> current_count b
      | (None, Some y) \<Rightarrow> True
      | (Some x, None) \<Rightarrow> False
      | (Some x, Some y) \<Rightarrow> x > y \<or> (x = y \<and> current_count a \<ge> current_count b))"

fun insert_row :: "TrendingRow \<Rightarrow> TrendingRow list \<Rightarrow> TrendingRow list" where
  "insert_row r [] = [r]"
| "insert_row r (x # xs) = (if sorts_before r x then r # x # xs else x # insert_row r xs)"

definition order_by :: "TrendingRow list \<Rightarrow> TrendingRow list" where
  "order_by rows = foldr insert_row rows []"

text \<open>
  The final \<open>SELECT\<close> over the two common table expressions: the join, the \<open>WHERE\<close>
  clause, the select list, the order and \<open>LIMIT 20\<close>.
\<close>

definition trending_select ::
  "(jsstring \<times> int) list \<Rightarrow> (jsstring \<times> int) list \<Rightarrow> error + TrendingRow list" where
  "trending_select cs ps =
     (case rows_or_error
             (map select_row
                (filter (\<lambda>(c, p). coalesce (map_option snd c) 0 > 0) (full_outer_join cs ps))) of
        Inl e \<Rightarrow> Inl e
      | Inr rows \<Rightarrow> Inr (take 20 (order_by rows)))"

text \<open>
  \<open>pgPool.query(statement, [days, days * 2, days])\<close> at the time \<open>now\<close> on the table
  \<open>jobs\<close>; \<open>days\<close> is \<open>req.query.days\<close> as a number, 7 when absent. An error is what the
  handler catches and answers with status 500 and \<open>{error: 'Internal server error'}\<close>.
\<close>

definition trending :: "int \<Rightarrow> number \<Rightarrow> JobRow list \<Rightarrow> error + TrendingRow list" where
  "trending now days jobs =
     (let values = [days, multiply days 2, days]
      in case interval_in interval_literal of
           Inl e \<Rightarrow> Inl e
         | Inr i \<Rightarrow>
             if length values \<noteq> length statement_parameters then Inl QueryError
             else trending_select (current_week now i jobs) (previous_week now i i jobs))"

section \<open>Properties of strings and of the matcher\<close>

lemma startsWith_iff: "startsWith s t \<longleftrightarrow> (\<exists>post. s = t @ post)"
  by (induction s t rule: startsWith.induct) auto

lemma includesStr_iff: "includesStr s t \<longleftrightarrow> (\<exists>pre post. s = pre @ t @ post)"
proof (induction s)
  case Nil
  then show ?case by simp
next
  case (Cons x xs)
  show ?case
  proof
    assume "includesStr (x # xs) t"
    then consider "startsWith (x # xs) t" | "includesStr xs t" by auto
    then show "\<exists>pre post. x # xs = pre @ t @ post"
    proof cases
      case 1
      then obtain post where "x # xs = t @ post" by (auto simp: startsWith_iff)
      then have "x # xs = [] @ t @ post" by simp
      then show ?thesis by blast
    next
      case 2
      then obtain pre post where "xs = pre @ t @ post" using Cons.IH by blast
      then have "x # xs = (x # pre) @ t @ post" by simp
      then show ?thesis by blast
    qed
  next
    assume "\<exists>pre post. x # xs = pre @ t @ post"
    then obtain pre post where e: "x # xs = pre @ t @ post" by blast
    show "includesStr (x # xs) t"
    proof (cases pre)
      case Nil
      with e have "startsWith (x # xs) t" by (auto simp: startsWith_iff)
      then show ?thesis by simp
    next
      case (Cons y ys)
      with e have "xs = ys @ t @ post" by simp
      then have "includesStr xs t" using Cons.IH by blast
      then show ?thesis by simp
    qed
  qed
qed

lemma match_here: "matchAt p s \<noteq> None \<Longrightarrow> match p s \<noteq> None"
  by (cases s) (auto split: option.splits)

lemma match_later: "match p s \<noteq> None \<Longrightarrow> match p (pre @ s) \<noteq> None"
  by (induction pre) (auto split: option.splits)

lemma test_inside: "matchAt p (t @ post) \<noteq> None \<Longrightarrow> test p (pre @ t @ post)"
  unfolding test_def by (intro match_later match_here)

lemma returnOnMatch_eq:
  "returnOnMatch ps d v = (if \<exists>p\<in>set ps. test p d then Some v else None)"
  by (induction ps) auto

text \<open>Unfolding a bounded repetition whose bound is written as a numeral.\<close>

lemma repRuns_numeral_Nil [simp]:
  "repRuns P lo (numeral k) [] = (if lo = 0 then [[]] else [])"
  by (simp add: numeral_eq_Suc)

lemma repRuns_numeral_Cons [simp]:
  "repRuns P lo (numeral k) (x # xs) =
     (if P x then repRuns P (lo - 1) (pred_numeral k) xs else [])
     @ (if lo = 0 then [x # xs] else [])"
  by (simp add: numeral_eq_Suc)


lemmas regex_defs = str_def lit_def matchAt_def isWhite_def isDigit_def

lemmas regex_eval = regex_defs canon_def sameUnit_def

lemma foldl_push:
  "foldl (\<lambda>found x. if P x then found @ [x] else found) acc xs = acc @ filter P xs"
  by (induction xs arbitrary: acc) auto

lemma set_setSpread: "set (setSpread xs) = set xs"
  by (induction xs rule: setSpread.induct) auto


lemma includesStr_trans:
  "includesStr s t \<Longrightarrow> includesStr t r \<Longrightarrow> includesStr s r"
proof -
  assume "includesStr s t" "includesStr t r"
  then obtain a b c e where "s = a @ t @ b" "t = c @ r @ e"
    by (auto simp: includesStr_iff)
  then have "s = (a @ c) @ r @ (e @ b)" by simp
  then show ?thesis unfolding includesStr_iff by blast
qed

text \<open>
  Lower case: an ASCII run is lowered unit by unit wherever it stands, and what comes
  before it only adds units in front.
\<close>

lemma lowerFrom_ascii:
  "list_all (\<lambda>u. u < 128) w
   \<Longrightarrow> lowerFrom L b (w @ r) = map lowerUnit w @ lowerFrom L (b @ w) r"
  by (induction w arbitrary: b) simp_all

lemma lowerFrom_prefix: "\<exists>x. lowerFrom L b (pre @ r) = x @ lowerFrom L (b @ pre) r"
proof (induction pre arbitrary: b)
  case Nil
  show ?case by simp
next
  case (Cons u pre)
  from Cons [of "b @ [u]"] obtain x where
    "lowerFrom L (b @ [u]) (pre @ r) = x @ lowerFrom L (b @ u # pre) r" by auto
  then have "lowerFrom L b ((u # pre) @ r)
      = ((if u < 128 then [lowerUnit u] else L b u (pre @ r)) @ x) @ lowerFrom L (b @ u # pre) r"
    by simp
  then show ?case by blast
qed

lemma lowerUnit_ascii: "lowerUnit u < 128 \<Longrightarrow> u < 128"
  by (simp add: lowerUnit_def split: if_splits)

lemma lowered_ascii:
  "map lowerUnit w = t \<Longrightarrow> list_all (\<lambda>u. u < 128) t \<Longrightarrow> list_all (\<lambda>u. u < 128) w"
  by (induction w arbitrary: t) (auto simp: lowerUnit_ascii)

lemma includes_lowered:
  assumes "map lowerUnit w = t" and "list_all (\<lambda>u. u < 128) t"
  shows "includesStr (toLowerCase L (pre @ w @ post)) t"
proof -
  from lowerFrom_prefix [of L "[]" pre "w @ post"] obtain x where
    "toLowerCase L (pre @ w @ post) = x @ lowerFrom L pre (w @ post)"
    by (auto simp: toLowerCase_def)
  with lowerFrom_ascii [OF lowered_ascii [OF assms], of L pre post] assms(1)
  have "toLowerCase L (pre @ w @ post) = x @ t @ lowerFrom L (pre @ w) post" by simp
  then show ?thesis unfolding includesStr_iff by blast
qed

text \<open>Doubles: an integer below \<open>2^53\<close> is its own double; no double is \<open>NaN\<close>.\<close>

lemma bitLength_le: "n < 2 ^ k \<Longrightarrow> bitLength n \<le> k"
proof (induction k arbitrary: n)
  case 0
  then show ?case by (simp add: bitLength.simps)
next
  case (Suc k)
  then have "n div 2 < 2 ^ k" by simp
  from Suc.IH [OF this] show ?case by (subst bitLength.simps) simp
qed


lemma nearest_small: "v < 2 ^ 53 \<Longrightarrow> nearest v = v"
  using bitLength_le [of v 53] by (simp add: nearest_def)

lemma toDouble_small: "\<bar>i\<bar> < 2 ^ 53 \<Longrightarrow> toDouble i = Number i"
proof -
  assume a: "\<bar>i\<bar> < 2 ^ 53"
  then have "nat \<bar>i\<bar> < 2 ^ 53" by simp
  then have n: "nearest (nat \<bar>i\<bar>) = nat \<bar>i\<bar>" by (rule nearest_small)
  have "(2::nat) ^ 53 \<le> 2 ^ 1024" by (rule power_increasing) simp_all
  with \<open>nat \<bar>i\<bar> < 2 ^ 53\<close> have "\<not> (2::nat) ^ 1024 \<le> nat \<bar>i\<bar>" by simp
  with n show ?thesis by (simp add: toDouble_def Let_def)
qed





section \<open>Visa sponsorship: negative patterns come first\<close>

lemma no_visa_sponsorship_here:
  "matchAt (negativePatterns ! 0) (str ''no visa sponsorship'' @ post) \<noteq> None"
  by (simp add: negativePatterns_def regex_eval)

text \<open>
  C1. \<open>checkVisaSponsorship\<close> returns false as soon as one negative pattern matches,
  whatever the positive patterns do; with no negative match it returns true exactly when
  a positive pattern matches, and null otherwise. A text that contains both
  "no visa sponsorship" and "we sponsor" gets false.
\<close>

theorem checkVisaSponsorship_negative_first:
  "checkVisaSponsorship d =
     (if \<exists>p\<in>set negativePatterns. test p d then Some False
      else if \<exists>p\<in>set positivePatterns. test p d then Some True
      else None)
   \<and> (includesStr d (str ''no visa sponsorship'') \<and> includesStr d (str ''we sponsor'')
        \<longrightarrow> checkVisaSponsorship d = Some False)"
proof
  show general: "checkVisaSponsorship d =
     (if \<exists>p\<in>set negativePatterns. test p d then Some False
      else if \<exists>p\<in>set positivePatterns. test p d then Some True
      else None)"
    by (simp add: checkVisaSponsorship_def returnOnMatch_eq)
  show "includesStr d (str ''no visa sponsorship'') \<and> includesStr d (str ''we sponsor'')
        \<longrightarrow> checkVisaSponsorship d = Some False"
  proof
    assume "includesStr d (str ''no visa sponsorship'') \<and> includesStr d (str ''we sponsor'')"
    then obtain pre post where d: "d = pre @ str ''no visa sponsorship'' @ post"
      by (auto simp: includesStr_iff)
    have "test (negativePatterns ! 0) d"
      unfolding d by (rule test_inside) (rule no_visa_sponsorship_here)
    moreover have "negativePatterns ! 0 \<in> set negativePatterns"
      by (simp add: negativePatterns_def)
    ultimately have "\<exists>p\<in>set negativePatterns. test p d" by blast
    then show "checkVisaSponsorship d = Some False" by (simp add: general)
  qed
qed

theorem checkVisaSponsorship_negative_first_witness:
  "includesStr (str ''Sorry, no visa sponsorship; we sponsor lunch'') (str ''no visa sponsorship'')
   \<and> includesStr (str ''Sorry, no visa sponsorship; we sponsor lunch'') (str ''we sponsor'')
   \<and> test (positivePatterns ! 2) (str ''Sorry, no visa sponsorship; we sponsor lunch'')
   \<and> checkVisaSponsorship (str ''Sorry, no visa sponsorship; we sponsor lunch'') = Some False
   \<and> checkVisaSponsorship (str ''Visa sponsorship is available'') = Some True
   \<and> checkVisaSponsorship (str ''Great team'') = None"
proof -
  have a: "includesStr (str ''Sorry, no visa sponsorship; we sponsor lunch'')
             (str ''no visa sponsorship'')"
    by (simp add: str_def)
  have b: "includesStr (str ''Sorry, no visa sponsorship; we sponsor lunch'') (str ''we sponsor'')"
    by (simp add: str_def)
  have c: "test (positivePatterns ! 2) (str ''Sorry, no visa sponsorship; we sponsor lunch'')"
    by (simp add: positivePatterns_def test_def regex_eval)
  have d: "\<not> (\<exists>p \<in> set negativePatterns. test p (str ''Visa sponsorship is available''))"
          "\<exists>p \<in> set positivePatterns. test p (str ''Visa sponsorship is available'')"
    by (simp_all add: negativePatterns_def positivePatterns_def test_def regex_eval)
  have e: "\<not> (\<exists>p \<in> set negativePatterns. test p (str ''Great team''))"
          "\<not> (\<exists>p \<in> set positivePatterns. test p (str ''Great team''))"
    by (simp_all add: negativePatterns_def positivePatterns_def test_def regex_eval)
  have "checkVisaSponsorship (str ''Visa sponsorship is available'') = Some True"
    using checkVisaSponsorship_negative_first [of "str ''Visa sponsorship is available''"] d
    by simp
  moreover have "checkVisaSponsorship (str ''Great team'') = None"
    using checkVisaSponsorship_negative_first [of "str ''Great team''"] e
    by simp
  moreover from a b c
    checkVisaSponsorship_negative_first [of "str ''Sorry, no visa sponsorship; we sponsor lunch''"]
  have "checkVisaSponsorship (str ''Sorry, no visa sponsorship; we sponsor lunch'') = Some False"
    by blast
  ultimately show ?thesis using a b c by simp
qed

text \<open>
  C10. A description that matches one of the two work-authorization phrases,
  \<open>/must\s*be\s*authorized/i\<close> or \<open>/must\s*have\s*work\s*authorization/i\<close>, gets
  false, not unknown, even when it says nothing about sponsorship: both are entries of
  the negative list.
\<close>

theorem work_authorization_means_false:
  "test (RegExp (seqs [lit ''must'', ws, lit ''be'', ws, lit ''authorized'']) True) d
   \<or> test (RegExp (seqs [lit ''must'', ws, lit ''have'', ws, lit ''work'', ws,
                          lit ''authorization'']) True) d
   \<Longrightarrow> checkVisaSponsorship d = Some False"
proof -
  assume "test (RegExp (seqs [lit ''must'', ws, lit ''be'', ws, lit ''authorized'']) True) d
   \<or> test (RegExp (seqs [lit ''must'', ws, lit ''have'', ws, lit ''work'', ws,
                          lit ''authorization'']) True) d"
  moreover have "RegExp (seqs [lit ''must'', ws, lit ''be'', ws, lit ''authorized'']) True
                   \<in> set negativePatterns"
    by (simp add: negativePatterns_def)
  moreover have "RegExp (seqs [lit ''must'', ws, lit ''have'', ws, lit ''work'', ws,
                          lit ''authorization'']) True \<in> set negativePatterns"
    by (simp add: negativePatterns_def)
  ultimately have "\<exists>p\<in>set negativePatterns. test p d" by blast
  then show ?thesis
    by (simp add: checkVisaSponsorship_def returnOnMatch_eq)
qed

theorem work_authorization_means_false_witness:
  "test (RegExp (seqs [lit ''must'', ws, lit ''be'', ws, lit ''authorized'']) True)
        (str ''Must be authorized to work in the US.'')
   \<and> \<not> (\<exists>p\<in>set positivePatterns. test p (str ''Must be authorized to work in the US.''))
   \<and> checkVisaSponsorship (str ''Must be authorized to work in the US.'') = Some False"
proof -
  have a: "test (RegExp (seqs [lit ''must'', ws, lit ''be'', ws, lit ''authorized'']) True)
             (str ''Must be authorized to work in the US.'')"
    by (simp add: test_def regex_eval)
  have b: "\<not> (\<exists>p\<in>set positivePatterns. test p (str ''Must be authorized to work in the US.''))"
    by (simp add: positivePatterns_def test_def regex_eval)
  from a b work_authorization_means_false [of "str ''Must be authorized to work in the US.''"]
  show ?thesis by blast
qed

section \<open>Tech stack: closed under keyword containment\<close>

lemma set_extractTechStack:
  "set (extractTechStack L d) =
     {k \<in> set techKeywords. includesStr (toLowerCase L d) (toLowerCase L k)}"
  by (simp add: extractTechStack_def Let_def foldl_push[where acc="[]", simplified] set_setSpread)

text \<open>
  C9. The extracted tech stack is closed under keyword containment: when a keyword is
  found, so is every keyword whose lower-case form occurs in the found keyword's. A
  description that contains "javascript" in any letter case (a text \<open>w\<close> whose units,
  lowered one by one, spell it) yields both "JavaScript" and "Java".
\<close>

theorem extractTechStack_substring_closed:
  "(\<forall>k1 k2. k1 \<in> set (extractTechStack L d) \<and> k2 \<in> set techKeywords
       \<and> includesStr (toLowerCase L k1) (toLowerCase L k2) \<longrightarrow> k2 \<in> set (extractTechStack L d))
   \<and> (\<forall>pre w post. d = pre @ w @ post \<and> map lowerUnit w = str ''javascript''
       \<longrightarrow> str ''JavaScript'' \<in> set (extractTechStack L d)
           \<and> str ''Java'' \<in> set (extractTechStack L d))"
proof (intro conjI allI impI)
  fix k1 k2
  assume "k1 \<in> set (extractTechStack L d) \<and> k2 \<in> set techKeywords
       \<and> includesStr (toLowerCase L k1) (toLowerCase L k2)"
  then show "k2 \<in> set (extractTechStack L d)"
    unfolding set_extractTechStack using includesStr_trans by blast
next
  fix pre w post
  assume a: "d = pre @ w @ post \<and> map lowerUnit w = str ''javascript''"
  have "list_all (\<lambda>u. u < 128) (str ''javascript'')"
    by (simp add: str_def)
  with a have js: "includesStr (toLowerCase L d) (str ''javascript'')"
    using includes_lowered [of w "str ''javascript''" L pre post] by simp
  have "includesStr (str ''javascript'') (str ''java'')"
    by (simp add: str_def)
  with js have j: "includesStr (toLowerCase L d) (str ''java'')"
    by (rule includesStr_trans)
  have k: "str ''JavaScript'' \<in> set techKeywords" "str ''Java'' \<in> set techKeywords"
    by (simp_all add: techKeywords_def)
  have l: "toLowerCase L (str ''JavaScript'') = str ''javascript''"
          "toLowerCase L (str ''Java'') = str ''java''"
    by (simp_all add: toLowerCase_def lowerUnit_def str_def)
  show "str ''JavaScript'' \<in> set (extractTechStack L d)"
    unfolding set_extractTechStack using js k l by simp
  show "str ''Java'' \<in> set (extractTechStack L d)"
    unfolding set_extractTechStack using j k l by simp
qed

theorem extractTechStack_substring_closed_witness:
  "str ''Senior JAVAscript developer'' = str ''Senior '' @ str ''JAVAscript'' @ str '' developer''
   \<and> map lowerUnit (str ''JAVAscript'') = str ''javascript''
   \<and> str ''JavaScript'' \<in> set (extractTechStack unchanged (str ''Senior JAVAscript developer''))
   \<and> str ''Java'' \<in> set (extractTechStack unchanged (str ''Senior JAVAscript developer''))"
proof -
  have a: "str ''Senior JAVAscript developer'' = str ''Senior '' @ str ''JAVAscript'' @ str '' developer''
        \<and> map lowerUnit (str ''JAVAscript'') = str ''javascript''"
    by (simp add: str_def lowerUnit_def)
  from a extractTechStack_substring_closed [of unchanged "str ''Senior JAVAscript developer''"]
  show ?thesis by blast
qed

section \<open>Salary: the k shorthand\<close>









section \<open>Industry: the first matching category\<close>

lemma firstLabel_first:
  "i < length es \<Longrightarrow> test (snd (es ! i)) d \<Longrightarrow> (\<And>j. j < i \<Longrightarrow> \<not> test (snd (es ! j)) d)
   \<Longrightarrow> firstLabel es d = Some (fst (es ! i))"
proof (induction es arbitrary: i)
  case Nil
  then show ?case by simp
next
  case (Cons e es)
  obtain l p where e: "e = (l, p)" by (cases e) auto
  show ?case
  proof (cases i)
    case 0
    with Cons.prems e show ?thesis by simp
  next
    case (Suc k)
    with Cons.prems(3) [of 0] e have n: "\<not> test p d" by simp
    have "firstLabel es d = Some (fst (es ! k))"
    proof (rule Cons.IH)
      show "k < length es" using Cons.prems(1) Suc by simp
      show "test (snd (es ! k)) d" using Cons.prems(2) Suc by simp
      show "\<not> test (snd (es ! j)) d" if "j < k" for j
        using Cons.prems(3) [of "Suc j"] that Suc by simp
    qed
    with n e Suc show ?thesis by simp
  qed
qed

lemma firstLabel_none:
  "(\<And>i. i < length es \<Longrightarrow> \<not> test (snd (es ! i)) d) \<Longrightarrow> firstLabel es d = None"
proof (induction es)
  case Nil
  then show ?case by simp
next
  case (Cons e es)
  obtain l p where e: "e = (l, p)" by (cases e) auto
  from Cons.prems [of 0] e have n: "\<not> test p d" by simp
  have "firstLabel es d = None"
  proof (rule Cons.IH)
    show "\<not> test (snd (es ! i)) d" if "i < length es" for i
      using Cons.prems [of "Suc i"] that by simp
  qed
  with n e show ?case by simp
qed

text \<open>
  C4. \<open>classifyHKIndustry\<close> returns the label of the first category, in the order
  Banking & Finance, Insurance, Real Estate, Retail, Logistics, Technology, Healthcare,
  Education, Government, whose pattern matches, and "Other" when none does. A description
  that matches the banking pattern is "Banking & Finance", whether or not it matches the
  technology pattern as well.
\<close>

theorem classifyHKIndustry_first_match:
  "map fst industries = map str
     [''Banking & Finance'', ''Insurance'', ''Real Estate'', ''Retail'', ''Logistics'',
      ''Technology'', ''Healthcare'', ''Education'', ''Government'']
   \<and> (\<forall>i < length industries.
         test (snd (industries ! i)) d \<and> (\<forall>j < i. \<not> test (snd (industries ! j)) d)
         \<longrightarrow> classifyHKIndustry d = fst (industries ! i))
   \<and> ((\<forall>i < length industries. \<not> test (snd (industries ! i)) d)
         \<longrightarrow> classifyHKIndustry d = str ''Other'')
   \<and> (test (snd (industries ! 0)) d \<longrightarrow> classifyHKIndustry d = str ''Banking & Finance'')"
proof (intro conjI allI impI)
  show "map fst industries = map str
     [''Banking & Finance'', ''Insurance'', ''Real Estate'', ''Retail'', ''Logistics'',
      ''Technology'', ''Healthcare'', ''Education'', ''Government'']"
    by (simp add: industries_def)
next
  fix i
  assume "i < length industries"
    and "test (snd (industries ! i)) d \<and> (\<forall>j < i. \<not> test (snd (industries ! j)) d)"
  then have "firstLabel industries d = Some (fst (industries ! i))"
    by (intro firstLabel_first) auto
  then show "classifyHKIndustry d = fst (industries ! i)"
    by (simp add: classifyHKIndustry_def)
next
  assume "\<forall>i < length industries. \<not> test (snd (industries ! i)) d"
  then have "firstLabel industries d = None"
    by (intro firstLabel_none) auto
  then show "classifyHKIndustry d = str ''Other''"
    by (simp add: classifyHKIndustry_def)
next
  assume a: "test (snd (industries ! 0)) d"
  have "firstLabel industries d = Some (fst (industries ! 0))"
    by (rule firstLabel_first) (use a in \<open>simp_all add: industries_def\<close>)
  then show "classifyHKIndustry d = str ''Banking & Finance''"
    by (simp add: classifyHKIndustry_def industries_def)
qed

theorem classifyHKIndustry_first_match_witness:
  "test (snd (industries ! 0)) (str ''Investment bank seeks software engineer'')
   \<and> test (snd (industries ! 5)) (str ''Investment bank seeks software engineer'')
   \<and> classifyHKIndustry (str ''Investment bank seeks software engineer'')
       = str ''Banking & Finance''
   \<and> classifyHKIndustry (str ''Software engineer'') = str ''Technology''
   \<and> classifyHKIndustry (str ''Great team'') = str ''Other''"
proof -
  have a: "test (snd (industries ! 0)) (str ''Investment bank seeks software engineer'')"
    by (simp add: industries_def test_def regex_eval)
  have b: "test (snd (industries ! 5)) (str ''Investment bank seeks software engineer'')"
    by (simp add: industries_def test_def regex_eval)
  have c: "test (snd (industries ! 5)) (str ''Software engineer'')"
    by (simp add: industries_def test_def regex_eval)
  have d: "\<not> test (snd (industries ! j)) (str ''Software engineer'')" if "j < 5" for j
  proof -
    from that have "j = 0 \<or> j = 1 \<or> j = 2 \<or> j = 3 \<or> j = 4" by arith
    then show ?thesis
      by (elim disjE) (simp_all add: industries_def test_def regex_eval)
  qed
  have e: "\<not> test (snd (industries ! i)) (str ''Great team'')" if "i < length industries" for i
  proof -
    from that have "i = 0 \<or> i = 1 \<or> i = 2 \<or> i = 3 \<or> i = 4 \<or> i = 5 \<or> i = 6 \<or> i = 7 \<or> i = 8"
      by (simp add: industries_def) arith
    then show ?thesis
      by (elim disjE) (simp_all add: industries_def test_def regex_eval)
  qed
  have l: "5 < length industries" "fst (industries ! 5) = str ''Technology''"
    by (simp_all add: industries_def)
  have "classifyHKIndustry (str ''Software engineer'') = str ''Technology''"
    using classifyHKIndustry_first_match [of "str ''Software engineer''"] c d l by auto
  moreover have "classifyHKIndustry (str ''Great team'') = str ''Other''"
    using classifyHKIndustry_first_match [of "str ''Great team''"] e by blast
  moreover have "classifyHKIndustry (str ''Investment bank seeks software engineer'')
       = str ''Banking & Finance''"
    using classifyHKIndustry_first_match [of "str ''Investment bank seeks software engineer''"] a
    by blast
  ultimately show ?thesis using a b by simp
qed

section \<open>Regional salary: the comma pattern\<close>

text \<open>
  C2. On "HK$20,000 - HK$40,000" the first regional pattern matches with the groups
  "20,000" and "40,000"; the matched text contains the "K" of "HK", so the branch for the
  "k" notation is taken and both amounts are multiplied by 1000.
\<close>

theorem extractHKSalary_comma_amounts:
  "extractHKSalary L (str ''HK$20,000 - HK$40,000'')
     = Inr (Some \<lparr>hmin = Number 20000000, hmax = Number 40000000, currency = str ''HKD''\<rparr>)"
proof -
  have fm: "firstMatch hkSalaryPatterns (str ''HK$20,000 - HK$40,000'')
      = Some (str ''HK$20,000 - HK$40,000'', [1 \<mapsto> str ''20,000'', 2 \<mapsto> str ''40,000''])"
    by (simp add: hkSalaryPatterns_def regex_eval)
  have a: "hkAmount L (str ''HK$20,000 - HK$40,000'') (str ''20,000'') = Number 20000000"
          "hkAmount L (str ''HK$20,000 - HK$40,000'') (str ''40,000'') = Number 40000000"
    unfolding hkAmount_def Let_def
    by (simp_all add: removeClass_def toLowerCase_def lowerUnit_def parseInt_def
        digitValue_def multiply_def toDouble_small regex_eval)
  show ?thesis
    by (simp add: extractHKSalary_def fm groupObject_def a)
qed

section \<open>Minimum-salary filters: what each board compares\<close>

lemmas parse_eval = parseInt_def digitValue_def isWhite_def str_def toDouble_small

text \<open>
  C3, as the code has it. On the regional board a row matches a minimum-salary request
  \<open>m\<close> exactly when its \<open>salary_max\<close> is present and at least \<open>m\<close>. On the generic
  board the request is in thousands, and a job matches exactly when it has a salary whose
  minimum is at least the product of \<open>m\<close> and 1000; for a finite minimum \<open>a\<close> and a
  product below \<open>2^53\<close>, where doubles are exact, that is \<open>m * 1000 \<le> a\<close>.
\<close>

theorem minSalary_on_each_board:
  "(s \<noteq> [] \<and> parseInt s = Number m \<and> int4 m
      \<longrightarrow> minSalaryClause (Some s) row = Inr (\<exists>x. salary_max row = Some x \<and> m \<le> x))
   \<and> (s \<noteq> [] \<and> parseInt s = Number m
      \<longrightarrow> (job \<in> set (minSalaryFilter s jobs)
           \<longleftrightarrow> job \<in> set jobs
               \<and> (\<exists>r. salary (annotations job) = Some r
                      \<and> geq (smin r) (multiply (Number m) 1000))))
   \<and> (\<bar>m\<bar> * 1000 < 2 ^ 53
      \<longrightarrow> (geq (Number a) (multiply (Number m) 1000) \<longleftrightarrow> m * 1000 \<le> a))"
proof (intro conjI impI)
  assume "s \<noteq> [] \<and> parseInt s = Number m \<and> int4 m"
  then show "minSalaryClause (Some s) row = Inr (\<exists>x. salary_max row = Some x \<and> m \<le> x)"
    by (cases "salary_max row") (simp_all add: minSalaryClause_def)
next
  assume a: "s \<noteq> [] \<and> parseInt s = Number m"
  have "(case salary (annotations job) of None \<Rightarrow> False
         | Some r \<Rightarrow> geq (smin r) (multiply (Number m) 1000))
        \<longleftrightarrow> (\<exists>r. salary (annotations job) = Some r
                      \<and> geq (smin r) (multiply (Number m) 1000))"
    by (cases "salary (annotations job)") simp_all
  with a show "job \<in> set (minSalaryFilter s jobs)
           \<longleftrightarrow> job \<in> set jobs
               \<and> (\<exists>r. salary (annotations job) = Some r
                      \<and> geq (smin r) (multiply (Number m) 1000))"
    by (simp add: minSalaryFilter_def str_def)
next
  assume "\<bar>m\<bar> * 1000 < 2 ^ 53"
  then have "\<bar>m * 1000\<bar> < 2 ^ 53" by (simp add: abs_mult)
  then have "multiply (Number m) 1000 = Number (m * 1000)"
    by (simp add: multiply_def toDouble_small)
  then show "geq (Number a) (multiply (Number m) 1000) \<longleftrightarrow> m * 1000 \<le> a"
    by simp
qed

theorem minSalary_on_each_board_witness:
  "minSalaryClause (Some (str ''30000''))
     \<lparr>source = str ''JobsDB'', tech_stack = None, salary_min = Some 20000,
      salary_max = Some 40000, created_at = None\<rparr> = Inr True
   \<and> sampleJob \<in> set (minSalaryFilter (str ''100'') [sampleJob])
   \<and> sampleJob \<notin> set (minSalaryFilter (str ''120'') [sampleJob])"
proof -
  have p: "parseInt (str ''30000'') = Number 30000" "parseInt (str ''100'') = Number 100"
          "parseInt (str ''120'') = Number 120"
    by (simp_all add: parse_eval)
  have n: "str ''30000'' \<noteq> []" "str ''100'' \<noteq> []" "str ''120'' \<noteq> []" "int4 30000"
    by (simp_all add: str_def int4_def)
  have "minSalaryClause (Some (str ''30000''))
     \<lparr>source = str ''JobsDB'', tech_stack = None, salary_min = Some 20000,
      salary_max = Some 40000, created_at = None\<rparr> = Inr True"
    using minSalary_on_each_board [of "str ''30000''" 30000
      "\<lparr>source = str ''JobsDB'', tech_stack = None, salary_min = Some 20000,
      salary_max = Some 40000, created_at = None\<rparr>"] p n
    by simp
  moreover have "sampleJob \<in> set (minSalaryFilter (str ''100'') [sampleJob])"
    using minSalary_on_each_board [of "str ''100''" 100 _ sampleJob "[sampleJob]" 100000] p n
    by (simp add: sampleJob_def)
  moreover have "sampleJob \<notin> set (minSalaryFilter (str ''120'') [sampleJob])"
    using minSalary_on_each_board [of "str ''120''" 120 _ sampleJob "[sampleJob]" 100000] p n
    by (simp add: sampleJob_def)
  ultimately show ?thesis by simp
qed

text \<open>
  The claim as stated fails on the generic board: the sample job's salary maximum, 140000,
  is at least the requested 120 (thousand), and the filter drops the job, its salary
  minimum being 100000.
\<close>

theorem minSalary_generic_counterexample:
  "extractSalaryRange unchanged (description sampleJob) = Inr (salary (annotations sampleJob))
   \<and> salary (annotations sampleJob) = Some \<lparr>smin = Number 100000, smax = Number 140000\<rparr>
   \<and> geq (Number 140000) (parseInt (str ''120''))
   \<and> geq (Number 140000) (multiply (parseInt (str ''120'')) 1000)
   \<and> minSalaryFilter (str ''120'') [sampleJob] = []"
proof -
  have fm: "firstMatch salaryPatterns (description sampleJob)
      = Some (str ''$100,000 - $140,000'', [1 \<mapsto> str ''100,000'', 2 \<mapsto> str ''140,000''])"
    by (simp add: sampleJob_def salaryPatterns_def regex_eval)
  have am: "salaryAmount unchanged (str ''100,000'') = Number 100000"
           "salaryAmount unchanged (str ''140,000'') = Number 140000"
    unfolding salaryAmount_def Let_def
    by (simp_all add: removeClass_def toLowerCase_def lowerUnit_def parseInt_def
        digitValue_def toDouble_small regex_eval)
  have "extractSalaryRange unchanged (description sampleJob) = Inr (salary (annotations sampleJob))"
    by (simp add: extractSalaryRange_def fm groupObject_def am) (simp add: sampleJob_def)
  then show ?thesis
    by (simp add: sampleJob_def minSalaryFilter_def multiply_def parse_eval)
qed

section \<open>Trending skills: the statement is rejected\<close>

text \<open>
  C5. The \<open>CASE\<close> expression of the statement gives 100 to a technology without
  previous occurrences, as the claim says, but the statement is never evaluated: its
  interval literals are the text \<open>'%s days'\<close>, which is no interval, and it has no
  parameter for the three values sent with it. The server rejects it, and the handler
  answers every request with status 500: a technology with 45 current and no previous
  occurrences gets no growth of 100, nor any other.
\<close>

theorem trending_query_rejected:
  "interval_in interval_literal = Inl QueryError
   \<and> length [days, multiply days 2, days] \<noteq> length statement_parameters
   \<and> trending now days jobs = Inl QueryError
   \<and> growth_percentage_of (Some (t, 45)) None = Inr (Some 100)"
proof -
  have i: "interval_in interval_literal = Inl QueryError"
    by (simp add: interval_in_def interval_literal_def str_def isDigit_def)
  then have "trending now days jobs = Inl QueryError"
    by (simp add: trending_def)
  moreover have "growth_percentage_of (Some (t, 45)) None = Inr (Some 100)"
    by (simp add: growth_percentage_of_def coalesce_def)
  ultimately show ?thesis
    using i by (simp add: statement_parameters_def)
qed



section \<open>What a match captures\<close>











section \<open>Amounts are numbers\<close>



















section \<open>Every extractor returns a value of its domain\<close>




lemma groups_units [simp]: "groups (units us) = {}"
  by (induction us rule: units.induct) auto

lemma groups_lit [simp]: "groups (lit s) = {}"
  by (simp add: lit_def)

























end
